theory Spec2Isabelle
  imports Complex_Main
begin

section \<open>Common values\<close>

text \<open>
  Python floats are modelled as \<^typ>\<open>real\<close>: the development is about which quantities
  the code combines and in which order, not about rounding.  A value that may be
  \<^verbatim>\<open>None\<close> is a \<^typ>\<open>real option\<close>.  Exceptions are values of \<open>error\<close>.
\<close>

datatype error =
    AttributeError
  | ValueError
  | ZeroDivisionError
  | TypeError
  | BackendError string

datatype json =
    JNull
  | JNum real
  | JStr string
  | JArr "json list"
  | JObj "(string \<times> json) list"

section \<open>In-process variant: \<^verbatim>\<open>single_local_instance/metrics.py\<close>\<close>

text \<open>
  \<^verbatim>\<open>avg_ttft = sum(ttfts) / len(ttfts) if ttfts else 0.0\<close>, and the same for TPOT.
  Both branches yield a float; the result is given as an optional float so that it can
  be compared with the remote variant, whose average may be \<^verbatim>\<open>None\<close>.  The
  \<^verbatim>\<open>print\<close> of the two averages is not modelled.
\<close>

definition aggregate_metrics :: "real list \<Rightarrow> real list \<Rightarrow> real option \<times> real option" where
  "aggregate_metrics ttfts tpots =
     (let avg_ttft = (if ttfts \<noteq> [] then Some (sum_list ttfts / real (length ttfts)) else Some 0);
          avg_tpot = (if tpots \<noteq> [] then Some (sum_list tpots / real (length tpots)) else Some 0)
      in (avg_ttft, avg_tpot))"

section \<open>Remote variant: \<^verbatim>\<open>single_online_instance/metrics.py\<close>\<close>

text \<open>
  The sink object.  \<open>metric_name\<close> is optional because the constructor assigns the
  attribute only when no name is passed.  \<open>logger\<close> records whether a logger was given.
\<close>

record RAGPulseMetrics =
  TTFTs :: "real list"
  TPOTs :: "real list"
  metric_dir :: string
  metric_name :: "string option"
  logger :: bool
  args :: json

text \<open>
  What the sink writes outside itself: files opened for writing (path and
  content), lines sent to the logger, and lines printed.  Failures of the file system are
  not modelled.
\<close>

record world =
  written :: "(string \<times> string) list"
  logged :: "string list"
  printed :: "string list"

definition DEFAULT_METRIC_NAMES :: "string list" where
  "DEFAULT_METRIC_NAMES = [''TTFT'', ''TPOT'', ''Average_TTFT'', ''Average_TPOT'']"

text \<open>\<^verbatim>\<open>os.path.join\<close> of two components, as \<^verbatim>\<open>posixpath\<close> has it.\<close>

definition os_path_join :: "string \<Rightarrow> string \<Rightarrow> string" where
  "os_path_join a p =
     (if p \<noteq> [] \<and> hd p = CHR ''/'' then p
      else if a = [] \<or> last a = CHR ''/'' then a @ p
      else a @ ''/'' @ p)"

text \<open>
  The constructor.  \<open>current_dir\<close> stands for the directory of the module and \<open>today\<close>
  for the formatted current time; creating the default directory is not modelled.
\<close>

definition init_metrics ::
  "string \<Rightarrow> string \<Rightarrow> string option \<Rightarrow> string option \<Rightarrow> bool \<Rightarrow> json \<Rightarrow> RAGPulseMetrics" where
  "init_metrics current_dir today metric_dir_arg metric_name_arg logger_arg args_arg =
     \<lparr> TTFTs = [], TPOTs = [],
       metric_dir = (case metric_dir_arg of
                       None \<Rightarrow> os_path_join current_dir ''metrics''
                     | Some d \<Rightarrow> d),
       metric_name = (case metric_name_arg of
                       None \<Rightarrow> Some (''rag_pulse_metrics_'' @ today @ ''.json'')
                     | Some n \<Rightarrow> None),
       logger = logger_arg,
       args = args_arg \<rparr>"

text \<open>
  One iteration of the loop of \<^verbatim>\<open>add_metrics\<close> over \<open>DEFAULT_METRIC_NAMES\<close>.  The
  argument dictionary maps a name to a float or to \<^verbatim>\<open>None\<close>.
\<close>

definition add_metric :: "(string \<rightharpoonup> real option) \<Rightarrow> string \<Rightarrow> RAGPulseMetrics \<Rightarrow> RAGPulseMetrics" where
  "add_metric metrics name s =
     (case metrics name of
        None \<Rightarrow> s
      | Some v \<Rightarrow>
          if name = ''TTFT'' then
            (case v of None \<Rightarrow> s | Some x \<Rightarrow> s\<lparr>TTFTs := TTFTs s @ [x]\<rparr>)
          else if name = ''TPOT'' then
            (case v of None \<Rightarrow> s | Some x \<Rightarrow> s\<lparr>TPOTs := TPOTs s @ [x]\<rparr>)
          else s)"

definition add_metrics :: "RAGPulseMetrics \<Rightarrow> (string \<rightharpoonup> real option) \<Rightarrow> RAGPulseMetrics" where
  "add_metrics s metrics = fold (add_metric metrics) DEFAULT_METRIC_NAMES s"

text \<open>The dictionary \<^verbatim>\<open>metrics_summary\<close> built by \<^verbatim>\<open>save_metrics\<close>, in insertion order.\<close>

definition metrics_summary :: "RAGPulseMetrics \<Rightarrow> (string \<times> json) list" where
  "metrics_summary s =
     [ (''TTFTs'', JArr (map JNum (TTFTs s))),
       (''TPOTs'', JArr (map JNum (TPOTs s))),
       (''Average_TTFT'',
          if length (TTFTs s) > 0 then JNum (sum_list (TTFTs s) / real (length (TTFTs s))) else JNull),
       (''Average_TPOT'',
          if length (TPOTs s) > 0 then JNum (sum_list (TPOTs s) / real (length (TPOTs s))) else JNull),
       (''Args'', args s) ]"

text \<open>
  \<^verbatim>\<open>save_metrics\<close>.  Reading \<^verbatim>\<open>self.metric_name\<close> raises when the attribute was
  never assigned.  \<open>dump\<close> is \<^verbatim>\<open>json.dump(_, indent=4)\<close>, a parameter of the model.
\<close>

definition save_metrics ::
  "(json \<Rightarrow> string) \<Rightarrow> RAGPulseMetrics \<Rightarrow> world \<Rightarrow> error + (RAGPulseMetrics \<times> world)" where
  "save_metrics dump s w =
     (case metric_name s of
        None \<Rightarrow> Inl AttributeError
      | Some name \<Rightarrow>
          let metric_path = os_path_join (metric_dir s) name;
              w1 = w\<lparr>written := written w @ [(metric_path, dump (JObj (metrics_summary s)))]\<rparr>;
              msg = ''Saved metrics summary to '' @ metric_path @ ''.''
          in Inr (s, if logger s then w1\<lparr>logged := logged w1 @ [msg]\<rparr>
                     else w1\<lparr>printed := printed w1 @ [msg]\<rparr>))"

section \<open>Remote variant: \<^verbatim>\<open>PreprocessData.simulate_token_lists\<close>\<close>

text \<open>
  \<^verbatim>\<open>random.randint(a, b)\<close> raises on an empty range and otherwise returns a value of
  \<open>[a, b]\<close>; \<open>r\<close> is the raw draw of the generator, any value of the range being reachable.
\<close>

definition randint :: "int \<Rightarrow> int \<Rightarrow> int \<Rightarrow> error + int" where
  "randint a b r = (if b < a then Inl ValueError else Inr (a + r mod (b - a + 1)))"

text \<open>The list comprehension: one draw per element, stopping at the first exception.\<close>

fun randints :: "int \<Rightarrow> int \<Rightarrow> int list \<Rightarrow> error + int list" where
  "randints a b [] = Inr []"
| "randints a b (r # rs) =
     (case randint a b r of
        Inl e \<Rightarrow> Inl e
      | Inr x \<Rightarrow> (case randints a b rs of Inl e \<Rightarrow> Inl e | Inr xs \<Rightarrow> Inr (x # xs)))"

text \<open>
  The generator is a sequence of raw draws \<open>rng\<close> with a position; the function returns
  the list and the new position.
\<close>

definition simulate_token_lists ::
  "(nat \<Rightarrow> int) \<Rightarrow> nat \<Rightarrow> int \<Rightarrow> int \<Rightarrow> error + (int list \<times> nat)" where
  "simulate_token_lists rng pos token_length vocab_size =
     (if token_length \<le> 0 \<or> vocab_size \<le> 0 then Inr ([], pos)
      else case randints 0 (vocab_size - 1) (map rng [pos ..< pos + nat token_length]) of
             Inl e \<Rightarrow> Inl e
           | Inr xs \<Rightarrow> Inr (xs, pos + nat token_length))"

section \<open>Trace records\<close>

text \<open>
  A trace dictionary, restricted to the two keys the replay engine reads.  \<open>timestamp\<close>
  is the value of \<^verbatim>\<open>int(trace["timestamp"])\<close>.
\<close>

record trace =
  timestamp :: int
  input_text :: string

section \<open>In-process variant: \<^verbatim>\<open>single_local_instance/real_time_runner.py\<close>\<close>

text \<open>
  What the consumer reads of \<^verbatim>\<open>outputs[0]\<close>: the two timestamps of its
  \<^verbatim>\<open>metrics\<close> and the generated token ids.
\<close>

record request_output =
  first_token_time :: real
  arrival_time :: real
  token_ids :: "int list"

definition IS_END :: int where
  "IS_END = - 1"

text \<open>
  Control points of \<^verbatim>\<open>_simulate_real_time_response\<close>: the head of the loop, the
  \<^verbatim>\<open>conn.poll()\<close> of the else branch, the exit test after it, and the two ways the
  function ends.
\<close>

datatype resp_pc = AtTop | AtPoll | AtExitCheck | Returned | Raised error

text \<open>
  The state shared by the two threads of \<^verbatim>\<open>run_real_time\<close> together with the
  locals of both functions.  \<open>conn\<close> holds the messages sent on the pipe and not yet
  received.  \<open>enqueued\<close>, \<open>dequeued\<close> and \<open>sent\<close> are history variables: every item
  appended to the queue, every item popped from it, and every message sent on the pipe.
\<close>

record local_state =
  idx :: nat
  request_done :: bool
  real_time_requests :: "(real \<times> string) list"
  conn :: "int list"
  is_sending_end :: bool
  pc :: resp_pc
  resp_TTFTs :: "real list"
  resp_TPOTs :: "real list"
  generate_calls :: nat
  enqueued :: "(real \<times> string) list"
  dequeued :: "(real \<times> string) list"
  sent :: "int list"

definition local_init :: local_state where
  "local_init =
     \<lparr> idx = 0, request_done = False, real_time_requests = [], conn = [],
       is_sending_end = False, pc = AtTop, resp_TTFTs = [], resp_TPOTs = [],
       generate_calls = 0, enqueued = [], dequeued = [], sent = [] \<rparr>"

text \<open>
  One evaluation of the loop condition of \<^verbatim>\<open>_simulate_real_time_request\<close> followed by
  the loop body, or by \<^verbatim>\<open>conn.send(IS_END)\<close> when the condition fails.
  \<open>current_time\<close> is the value \<^verbatim>\<open>time.time()\<close> returns in the body.
\<close>

definition simulate_real_time_request ::
  "trace list \<Rightarrow> real \<Rightarrow> real \<Rightarrow> local_state \<Rightarrow> local_state" where
  "simulate_real_time_request traces start_time current_time s =
     (if request_done s then s
      else if idx s < length traces then
        (if current_time - start_time \<ge> of_int (timestamp (traces ! idx s) div 10) then
           s\<lparr> real_time_requests :=
                 real_time_requests s @ [(current_time, input_text (traces ! idx s))],
              enqueued := enqueued s @ [(current_time, input_text (traces ! idx s))],
              idx := idx s + 1 \<rparr>
         else s)
      else s\<lparr> conn := conn s @ [IS_END], sent := sent s @ [IS_END], request_done := True \<rparr>)"

text \<open>
  One step of \<^verbatim>\<open>_simulate_real_time_response\<close> from its current control point.  The
  test of the queue and the \<^verbatim>\<open>pop(0)\<close> are one step (the other thread only appends).
  \<open>llm n prompt\<close> is the outcome of the \<open>n\<close>-th call of \<^verbatim>\<open>llm.generate\<close>, an
  exception or the output; \<open>ed_time\<close> is the value of \<^verbatim>\<open>time.time()\<close> after it.
\<close>

definition simulate_real_time_response ::
  "(nat \<Rightarrow> string \<Rightarrow> error + request_output) \<Rightarrow> real \<Rightarrow> local_state \<Rightarrow> local_state" where
  "simulate_real_time_response llm ed_time s =
     (case pc s of
        AtTop \<Rightarrow>
          (case real_time_requests s of
             [] \<Rightarrow> s\<lparr>pc := AtPoll\<rparr>
           | (receive_time, text) # rest \<Rightarrow>
               (let s1 = s\<lparr> real_time_requests := rest,
                             dequeued := dequeued s @ [(receive_time, text)],
                             generate_calls := generate_calls s + 1 \<rparr>
                in case llm (generate_calls s) text of
                     Inl e \<Rightarrow> s1\<lparr>pc := Raised e\<rparr>
                   | Inr out \<Rightarrow>
                       (let ttft = first_token_time out - receive_time;
                            gen_tokens = token_ids out;
                            tpot = (if gen_tokens \<noteq> []
                                    then (ed_time - arrival_time out) / real (length gen_tokens)
                                    else 0)
                        in s1\<lparr> resp_TTFTs := resp_TTFTs s @ [ttft],
                                resp_TPOTs := resp_TPOTs s @ [tpot] \<rparr>)))
      | AtPoll \<Rightarrow>
          (case conn s of
             [] \<Rightarrow> s\<lparr>pc := AtExitCheck\<rparr>
           | msg # rest \<Rightarrow>
               s\<lparr> conn := rest,
                  is_sending_end := (if msg = IS_END then True else is_sending_end s),
                  pc := AtExitCheck \<rparr>)
      | AtExitCheck \<Rightarrow>
          (if is_sending_end s \<and> real_time_requests s = [] then s\<lparr>pc := Returned\<rparr>
           else s\<lparr>pc := AtTop\<rparr>)
      | Returned \<Rightarrow> s
      | Raised e \<Rightarrow> s)"

text \<open>
  The two threads interleave: an event names the thread that takes its next step and the
  value of the clock it reads there.
\<close>

datatype event = Producer real | Consumer real

fun local_step ::
  "trace list \<Rightarrow> real \<Rightarrow> (nat \<Rightarrow> string \<Rightarrow> error + request_output) \<Rightarrow> event \<Rightarrow> local_state \<Rightarrow> local_state" where
  "local_step traces start_time llm (Producer t) s = simulate_real_time_request traces start_time t s"
| "local_step traces start_time llm (Consumer t) s = simulate_real_time_response llm t s"

text \<open>\<^verbatim>\<open>run_real_time\<close> under a schedule, from the empty queue.\<close>

definition run_real_time ::
  "trace list \<Rightarrow> real \<Rightarrow> (nat \<Rightarrow> string \<Rightarrow> error + request_output) \<Rightarrow> event list \<Rightarrow> local_state" where
  "run_real_time traces start_time llm es = fold (local_step traces start_time llm) es local_init"

text \<open>What \<^verbatim>\<open>run_real_time\<close> returns once both futures are done.\<close>

definition run_real_time_result :: "local_state \<Rightarrow> (error + real list \<times> real list) option" where
  "run_real_time_result s =
     (if \<not> request_done s then None
      else case pc s of
             Returned \<Rightarrow> Some (Inr (resp_TTFTs s, resp_TPOTs s))
           | Raised e \<Rightarrow> Some (Inl e)
           | _ \<Rightarrow> None)"

section \<open>Remote variant: \<^verbatim>\<open>single_online_instance/online_server.py\<close>\<close>

text \<open>What the queue carries: a tuple \<^verbatim>\<open>(input_text, current_time)\<close> or the end signal.\<close>

datatype item = Request string real | OnlineServerEndSignal

text \<open>
  A streamed completion as the client sees it: for each chunk the value of
  \<^verbatim>\<open>time.time()\<close> when it is received and its \<^verbatim>\<open>delta.content\<close>, then the value of
  \<^verbatim>\<open>time.time()\<close> after the last chunk.  \<open>arrival\<close> is the time at which the endpoint
  received the request; the client never reads it.
\<close>

record stream =
  arrival :: real
  chunks :: "(real \<times> string option) list"
  ed_time :: real

text \<open>
  The constructor's arguments the model depends on.  \<open>client n text\<close> is the outcome
  of the \<open>n\<close>-th call of \<^verbatim>\<open>chat.completions.create\<close> and of reading its result to the
  end: an exception raised by either, or the stream.
\<close>

record online_config =
  streaming :: bool
  client :: "nat \<Rightarrow> string \<Rightarrow> error + stream"
  json_dump :: "json \<Rightarrow> string"

text \<open>The body of \<^verbatim>\<open>for chunk in response_chunks\<close>, on the locals it updates.\<close>

definition chunk_step ::
  "real \<Rightarrow> real \<times> string option \<Rightarrow> real option \<times> string \<times> nat \<Rightarrow> real option \<times> string \<times> nat" where
  "chunk_step receive_time chunk acc =
     (case chunk of (cur_time, content) \<Rightarrow>
      case acc of (TTFT, full_response, chunk_count) \<Rightarrow>
        (let TTFT1 = (if TTFT = None then Some (cur_time - receive_time) else TTFT)
         in case content of
              None \<Rightarrow> (TTFT1, full_response, chunk_count)
            | Some c \<Rightarrow>
                if c \<noteq> [] then (TTFT1, full_response @ c, chunk_count + 1)
                else (TTFT1, full_response, chunk_count)))"

text \<open>
  \<^verbatim>\<open>response\<close>, as a function of the sink.  Formatting \<^verbatim>\<open>TTFT\<close> with
  \<^verbatim>\<open>:.2f\<close> raises when no chunk arrived and it is still \<^verbatim>\<open>None\<close>.  The log lines
  are not modelled.
\<close>

definition response ::
  "online_config \<Rightarrow> nat \<Rightarrow> RAGPulseMetrics \<Rightarrow> string \<Rightarrow> real \<Rightarrow> error + RAGPulseMetrics" where
  "response cfg n sink text receive_time =
     (if streaming cfg then
        (case client cfg n text of
           Inl e \<Rightarrow> Inl e
         | Inr st \<Rightarrow>
             (case fold (chunk_step receive_time) (chunks st) (None, [], 0) of
                (TTFT, full_response, chunk_count) \<Rightarrow>
                  (let TPOT = (if chunk_count > 0
                               then (ed_time st - receive_time) / real chunk_count
                               else 0)
                   in case TTFT of
                        None \<Rightarrow> Inl TypeError
                      | Some t \<Rightarrow>
                          Inr (add_metrics sink [''TTFT'' \<mapsto> Some t, ''TPOT'' \<mapsto> Some TPOT]))))
      else
        (case client cfg n text of
           Inl e \<Rightarrow> Inl e
         | Inr st \<Rightarrow> Inr sink))"

text \<open>
  The worker thread is running, has left its loop, or was ended by an exception.  The
  caller's thread executes a list of calls on the server object; \<open>Del\<close> is the
  destructor.  It is idle between calls, inside the loop of \<^verbatim>\<open>run\<close> (with the traces,
  the scale factor and the index), inside the \<^verbatim>\<open>join\<close> of \<^verbatim>\<open>close\<close>, or stopped by
  an exception.
\<close>

datatype thread = Running | Exited | Died error

datatype call = Run "trace list" int | Close | Del

datatype caller_pc = Idle | InRun "trace list" int nat | InJoin | Failed error

text \<open>
  The server object, its sink and the two threads.  \<open>put_log\<close> and \<open>got_log\<close> are
  history variables: every item put on the queue and every item taken from it.
\<close>

record online_state =
  request_queue :: "item list"
  request_thread :: "thread option"
  metrics :: RAGPulseMetrics
  outside :: world
  client_calls :: nat
  program :: "call list"
  caller :: caller_pc
  run_start_time :: real
  put_log :: "item list"
  got_log :: "item list"

definition online_init :: "call list \<Rightarrow> RAGPulseMetrics \<Rightarrow> world \<Rightarrow> online_state" where
  "online_init calls sink w =
     \<lparr> request_queue = [], request_thread = Some Running, metrics = sink, outside = w,
       client_calls = 0, program = calls, caller = Idle, run_start_time = 0,
       put_log = [], got_log = [] \<rparr>"

text \<open>One iteration of the loop of \<^verbatim>\<open>request_worker\<close>; \<^verbatim>\<open>get\<close> blocks on the empty queue.\<close>

definition request_worker :: "online_config \<Rightarrow> online_state \<Rightarrow> online_state" where
  "request_worker cfg s =
     (if request_thread s \<noteq> Some Running then s
      else case request_queue s of
             [] \<Rightarrow> s
           | it # rest \<Rightarrow>
               (let s1 = s\<lparr>request_queue := rest, got_log := got_log s @ [it]\<rparr>
                in case it of
                     OnlineServerEndSignal \<Rightarrow> s1\<lparr>request_thread := Some Exited\<rparr>
                   | Request text receive_time \<Rightarrow>
                       (case response cfg (client_calls s) (metrics s) text receive_time of
                          Inl e \<Rightarrow> s1\<lparr> request_thread := Some (Died e),
                                        client_calls := client_calls s + 1 \<rparr>
                        | Inr sink \<Rightarrow> s1\<lparr> metrics := sink,
                                           client_calls := client_calls s + 1 \<rparr>)))"

text \<open>
  The first half of \<^verbatim>\<open>close\<close>: the test of \<^verbatim>\<open>request_thread\<close> and the
  \<^verbatim>\<open>put\<close> of the end signal.
\<close>

definition close_put :: "online_state \<Rightarrow> online_state" where
  "close_put s =
     (case request_thread s of
        None \<Rightarrow> s\<lparr>program := tl (program s)\<rparr>
      | Some th \<Rightarrow>
          s\<lparr> request_queue := request_queue s @ [OnlineServerEndSignal],
             put_log := put_log s @ [OnlineServerEndSignal],
             caller := InJoin \<rparr>)"

text \<open>
  The second half: \<^verbatim>\<open>join\<close> waits while the worker runs, then the metrics are saved.
\<close>

definition close_join :: "online_config \<Rightarrow> online_state \<Rightarrow> online_state" where
  "close_join cfg s =
     (if request_thread s = Some Running then s
      else case save_metrics (json_dump cfg) (metrics s) (outside s) of
             Inl e \<Rightarrow> s\<lparr>caller := Failed e\<rparr>
           | Inr (sink, w) \<Rightarrow>
               s\<lparr>metrics := sink, outside := w, caller := Idle, program := tl (program s)\<rparr>)"

text \<open>
  One evaluation of the loop condition of \<^verbatim>\<open>run\<close> followed by the loop body, or the
  return from \<^verbatim>\<open>run\<close>.
\<close>

definition run_iter :: "trace list \<Rightarrow> int \<Rightarrow> nat \<Rightarrow> real \<Rightarrow> online_state \<Rightarrow> online_state" where
  "run_iter traces time_scale_factor trace_idx current_time s =
     (if trace_idx < length traces then
        (if time_scale_factor = 0 then s\<lparr>caller := Failed ZeroDivisionError\<rparr>
         else if current_time - run_start_time s
                   \<ge> of_int (timestamp (traces ! trace_idx)) / of_int time_scale_factor then
           s\<lparr> request_queue :=
                 request_queue s @ [Request (input_text (traces ! trace_idx)) current_time],
              put_log := put_log s @ [Request (input_text (traces ! trace_idx)) current_time],
              caller := InRun traces time_scale_factor (trace_idx + 1) \<rparr>
         else s)
      else s\<lparr>caller := Idle, program := tl (program s)\<rparr>)"

text \<open>The next step of the caller's thread; \<open>now\<close> is the clock value it reads, if any.\<close>

definition caller_step :: "online_config \<Rightarrow> real \<Rightarrow> online_state \<Rightarrow> online_state" where
  "caller_step cfg now s =
     (case caller s of
        Idle \<Rightarrow>
          (case program s of
             [] \<Rightarrow> s
           | Run traces k # cs \<Rightarrow> s\<lparr>run_start_time := now, caller := InRun traces k 0\<rparr>
           | Close # cs \<Rightarrow> close_put s
           | Del # cs \<Rightarrow> close_put s)
      | InRun traces k i \<Rightarrow> run_iter traces k i now s
      | InJoin \<Rightarrow> close_join cfg s
      | Failed e \<Rightarrow> s)"

datatype online_event = Caller real | Worker

fun online_step :: "online_config \<Rightarrow> online_event \<Rightarrow> online_state \<Rightarrow> online_state" where
  "online_step cfg (Caller now) s = caller_step cfg now s"
| "online_step cfg Worker s = request_worker cfg s"

definition online_exec :: "online_config \<Rightarrow> online_event list \<Rightarrow> online_state \<Rightarrow> online_state" where
  "online_exec cfg es s = fold (online_step cfg) es s"

section \<open>Invariants of the two replay engines\<close>

text \<open>
  The producer of the in-process variant: the items appended so far are the first
  \<open>idx\<close> traces in order, none appended before its floored, scaled timestamp, and the end
  message is sent once, after the last trace.
\<close>

definition producer_inv :: "trace list \<Rightarrow> real \<Rightarrow> local_state \<Rightarrow> bool" where
  "producer_inv traces start_time s \<longleftrightarrow>
     idx s \<le> length traces \<and>
     length (enqueued s) = idx s \<and>
     map snd (enqueued s) = map input_text (take (idx s) traces) \<and>
     (\<forall>i < length (enqueued s).
        start_time + of_int (timestamp (traces ! i) div 10) \<le> fst (enqueued s ! i)) \<and>
     (request_done s \<longrightarrow> idx s = length traces) \<and>
     sent s = (if request_done s then [IS_END] else [])"

text \<open>The hand-off between the two threads of the in-process variant.\<close>

definition handoff_inv :: "local_state \<Rightarrow> bool" where
  "handoff_inv s \<longleftrightarrow>
     enqueued s = dequeued s @ real_time_requests s \<and>
     conn s = (if is_sending_end s then [] else sent s) \<and>
     (is_sending_end s \<longrightarrow> request_done s) \<and>
     (pc s = Returned \<longrightarrow> is_sending_end s \<and> real_time_requests s = []) \<and>
     generate_calls s = length (dequeued s)"

text \<open>One sample of each kind per call of the backend that returned.\<close>

definition samples_inv :: "local_state \<Rightarrow> bool" where
  "samples_inv s \<longleftrightarrow>
     length (resp_TPOTs s) = length (resp_TTFTs s) \<and>
     length (resp_TTFTs s) + (case pc s of Raised e \<Rightarrow> 1 | _ \<Rightarrow> 0) = generate_calls s"

text \<open>
  The queue of the remote variant: while the worker runs it has taken no end signal, and
  the queue holds one, as its last item, exactly while the caller waits in \<^verbatim>\<open>join\<close>.
\<close>

definition queue_inv :: "online_state \<Rightarrow> bool" where
  "queue_inv s \<longleftrightarrow>
     put_log s = got_log s @ request_queue s \<and>
     client_calls s = length (filter (\<lambda>it. it \<noteq> OnlineServerEndSignal) (got_log s)) \<and>
     (request_thread s = Some Running \<longrightarrow>
        OnlineServerEndSignal \<notin> set (got_log s) \<and>
        (if caller s = InJoin
         then \<exists>q. request_queue s = q @ [OnlineServerEndSignal] \<and> OnlineServerEndSignal \<notin> set q
         else OnlineServerEndSignal \<notin> set (request_queue s)))"

definition sink_inv :: "RAGPulseMetrics \<Rightarrow> online_state \<Rightarrow> bool" where
  "sink_inv sink s \<longleftrightarrow>
     length (TTFTs (metrics s)) + (case request_thread s of Some (Died e) \<Rightarrow> 1 | _ \<Rightarrow> 0)
       = length (TTFTs sink) + client_calls s \<and>
     length (TPOTs (metrics s)) + (case request_thread s of Some (Died e) \<Rightarrow> 1 | _ \<Rightarrow> 0)
       = length (TPOTs sink) + client_calls s"

text \<open>A server on which the caller's only call is \<^verbatim>\<open>run(traces, k)\<close>.\<close>

definition single_run_inv :: "trace list \<Rightarrow> int \<Rightarrow> online_state \<Rightarrow> bool" where
  "single_run_inv traces k s \<longleftrightarrow>
     (\<exists>ts. length ts \<le> length traces \<and>
        put_log s = map2 (\<lambda>tr t. Request (input_text tr) t) (take (length ts) traces) ts \<and>
        (\<forall>i < length ts. run_start_time s + of_int (timestamp (traces ! i)) / of_int k \<le> ts ! i) \<and>
        (caller s = Idle \<and> program s = [Run traces k] \<and> ts = [] \<or>
         caller s = InRun traces k (length ts) \<and> program s = [Run traces k] \<or>
         caller s = Idle \<and> program s = [] \<or>
         (\<exists>e. caller s = Failed e)))"

section \<open>Sample inputs\<close>

text \<open>A serialiser that lists the keys of an object, to run \<open>save_metrics\<close> on samples.\<close>

definition dump_keys :: "json \<Rightarrow> string" where
  "dump_keys j = (case j of JObj kvs \<Rightarrow> concat (map fst kvs) | _ \<Rightarrow> [])"

definition world0 :: world where
  "world0 = \<lparr> written = [], logged = [], printed = [] \<rparr>"

definition sink0 :: RAGPulseMetrics where
  "sink0 = init_metrics ''/srv'' ''2025-01-01-00-00'' None None True (JObj [])"

definition sink123 :: RAGPulseMetrics where
  "sink123 =
     add_metrics
       (add_metrics
          (add_metrics sink0 [''TTFT'' \<mapsto> Some 1, ''TPOT'' \<mapsto> Some 4])
          [''TTFT'' \<mapsto> Some 2, ''TPOT'' \<mapsto> None])
       [''TTFT'' \<mapsto> Some 3, ''Average_TTFT'' \<mapsto> Some 7]"

definition saved_path :: string where
  "saved_path = ''/srv/metrics/rag_pulse_metrics_2025-01-01-00-00.json''"

definition world_saved :: world where
  "world_saved =
     \<lparr> written = [(saved_path, ''TTFTsTPOTsAverage_TTFTAverage_TPOTArgs'')],
       logged = [''Saved metrics summary to '' @ saved_path @ ''.''],
       printed = [] \<rparr>"

definition rng0 :: "nat \<Rightarrow> int" where
  "rng0 i = 7 * int i + 5"

definition two_traces :: "trace list" where
  "two_traces = [\<lparr>timestamp = 0, input_text = ''a''\<rparr>, \<lparr>timestamp = 15, input_text = ''b''\<rparr>]"

definition llm_ok :: "nat \<Rightarrow> string \<Rightarrow> error + request_output" where
  "llm_ok n prompt = Inr \<lparr>first_token_time = 3, arrival_time = 2, token_ids = [7, 8]\<rparr>"

definition llm_fail_first :: "nat \<Rightarrow> string \<Rightarrow> error + request_output" where
  "llm_fail_first n prompt = (if n = 0 then Inl (BackendError ''timeout'') else llm_ok n prompt)"

text \<open>
  A stream for a request that reached the endpoint at 10: three chunks, two of them with
  content, the last at 12.
\<close>

definition stream_late :: stream where
  "stream_late =
     \<lparr>arrival = 10, chunks = [(11, Some ''x''), (12, None), (12, Some ''y'')], ed_time = 12\<rparr>"

definition client_ok :: "nat \<Rightarrow> string \<Rightarrow> error + stream" where
  "client_ok n prompt = Inr stream_late"

definition client_fail_first :: "nat \<Rightarrow> string \<Rightarrow> error + stream" where
  "client_fail_first n prompt = (if n = 0 then Inl (BackendError ''timeout'') else Inr stream_late)"

definition cfg_ok :: online_config where
  "cfg_ok = \<lparr>streaming = True, client = client_ok, json_dump = dump_keys\<rparr>"

definition cfg_fail_first :: online_config where
  "cfg_fail_first = \<lparr>streaming = True, client = client_fail_first, json_dump = dump_keys\<rparr>"

definition one_queued :: local_state where
  "one_queued = local_init\<lparr>real_time_requests := [(1, ''a'')], enqueued := [(1, ''a'')], idx := 1\<rparr>"

definition two_queued :: local_state where
  "two_queued = local_init\<lparr>real_time_requests := [(0, ''a''), (1, ''b'')],
                           enqueued := [(0, ''a''), (1, ''b'')], idx := 2\<rparr>"

definition two_put :: online_state where
  "two_put = (online_init [] sink0 world0)
                \<lparr>request_queue := [Request ''a'' 0, Request ''b'' 2],
                  put_log := [Request ''a'' 0, Request ''b'' 2]\<rparr>"

section \<open>The metrics sink\<close>

lemma add_metric_other:
  "name \<noteq> ''TTFT'' \<Longrightarrow> name \<noteq> ''TPOT'' \<Longrightarrow> add_metric m name s = s"
  by (simp add: add_metric_def split: option.splits)

lemma add_metrics_unfold:
  "add_metrics s m = add_metric m ''TPOT'' (add_metric m ''TTFT'' s)"
  by (simp add: add_metrics_def DEFAULT_METRIC_NAMES_def add_metric_other)

lemma add_metrics_both:
  "add_metrics s [''TTFT'' \<mapsto> Some a, ''TPOT'' \<mapsto> Some b]
     = s\<lparr>TTFTs := TTFTs s @ [a], TPOTs := TPOTs s @ [b]\<rparr>"
  by (simp add: add_metrics_unfold add_metric_def)

lemma sink123_eq:
  "sink123 = sink0\<lparr>TTFTs := [1, 2, 3], TPOTs := [4]\<rparr>"
  by (simp add: sink123_def add_metrics_unfold add_metric_def sink0_def init_metrics_def)

lemma save_sink0: "save_metrics dump_keys sink0 world0 = Inr (sink0, world_saved)"
  by (simp add: save_metrics_def sink0_def world0_def world_saved_def saved_path_def
        init_metrics_def os_path_join_def metrics_summary_def dump_keys_def)

lemma save_sink123: "save_metrics dump_keys sink123 world0 = Inr (sink123, world_saved)"
  by (simp add: sink123_eq save_metrics_def sink0_def world0_def world_saved_def saved_path_def
        init_metrics_def os_path_join_def metrics_summary_def dump_keys_def)

text \<open>
  Claim C3, as the code has it: on an empty sample list the in-process
  \<open>aggregate_metrics\<close> returns the average 0.0, for TTFT and for TPOT alike, while the
  summary that \<open>save_metrics\<close> of the remote variant writes holds a null average.  Neither
  divides by zero.
\<close>

theorem empty_average_fallback:
  "(ttfts = [] \<longrightarrow> fst (aggregate_metrics ttfts tpots) = Some 0) \<and>
   (tpots = [] \<longrightarrow> snd (aggregate_metrics ttfts tpots) = Some 0) \<and>
   (save_metrics dump s w = Inr (s', w') \<longrightarrow>
      snd (last (written w')) = dump (JObj (metrics_summary s)) \<and>
      (TTFTs s = [] \<longrightarrow> map_of (metrics_summary s) ''Average_TTFT'' = Some JNull) \<and>
      (TPOTs s = [] \<longrightarrow> map_of (metrics_summary s) ''Average_TPOT'' = Some JNull))"
  by (auto simp: aggregate_metrics_def save_metrics_def metrics_summary_def Let_def
           split: option.splits if_splits)

theorem empty_average_fallback_witness:
  "fst (aggregate_metrics [] []) = Some 0 \<and> snd (aggregate_metrics [] []) = Some 0 \<and>
   save_metrics dump_keys sink0 world0 = Inr (sink0, world_saved) \<and>
   TTFTs sink0 = [] \<and> TPOTs sink0 = [] \<and>
   map_of (metrics_summary sink0) ''Average_TTFT'' = Some JNull \<and>
   map_of (metrics_summary sink0) ''Average_TPOT'' = Some JNull"
  using empty_average_fallback [of "[]" "[]" dump_keys sink0 world0 sink0 world_saved] save_sink0
  by (simp add: sink0_def init_metrics_def)

text \<open>
  Claim C3 as stated fails for the in-process variant: on two empty lists
  \<open>aggregate_metrics\<close> returns 0.0 twice, not null.
\<close>

theorem aggregate_empty_counterexample:
  "fst (aggregate_metrics [] []) = Some 0 \<and> fst (aggregate_metrics [] []) \<noteq> None \<and>
   snd (aggregate_metrics [] []) = Some 0 \<and> snd (aggregate_metrics [] []) \<noteq> None"
  by (simp add: aggregate_metrics_def)

text \<open>
  Claim C7: when \<open>save_metrics\<close> succeeds, the object it writes has exactly the keys
  TTFTs, TPOTs, Average_TTFT, Average_TPOT and Args, and each average over a non-empty
  sample list is the sum of the list divided by its length.  For the TTFT samples
  1.0, 2.0, 3.0 the average is 2.0.
\<close>

theorem save_metrics_summary_shape:
  "save_metrics dump s w = Inr (s', w') \<Longrightarrow>
     (\<exists>p. written w' = written w @ [(p, dump (JObj (metrics_summary s)))]) \<and>
     map fst (metrics_summary s) = [''TTFTs'', ''TPOTs'', ''Average_TTFT'', ''Average_TPOT'', ''Args''] \<and>
     (TTFTs s \<noteq> [] \<longrightarrow>
        map_of (metrics_summary s) ''Average_TTFT''
          = Some (JNum (sum_list (TTFTs s) / real (length (TTFTs s))))) \<and>
     (TPOTs s \<noteq> [] \<longrightarrow>
        map_of (metrics_summary s) ''Average_TPOT''
          = Some (JNum (sum_list (TPOTs s) / real (length (TPOTs s)))))"
  by (auto simp: save_metrics_def metrics_summary_def Let_def split: option.splits if_splits)

theorem save_metrics_summary_shape_witness:
  "save_metrics dump_keys sink123 world0 = Inr (sink123, world_saved) \<and>
   TTFTs sink123 = [1, 2, 3] \<and>
   map fst (metrics_summary sink123) = [''TTFTs'', ''TPOTs'', ''Average_TTFT'', ''Average_TPOT'', ''Args''] \<and>
   map_of (metrics_summary sink123) ''Average_TTFT'' = Some (JNum 2)"
  using save_metrics_summary_shape [OF save_sink123] save_sink123
  by (simp add: sink123_eq)

text \<open>
  Claim C8: \<open>save_metrics\<close> leaves the sink as it was, so a second call right after a
  successful one succeeds too and writes the same content to the same path.
\<close>

theorem save_metrics_twice:
  "save_metrics dump s w = Inr (s1, w1) \<Longrightarrow>
     \<exists>w2 p c. save_metrics dump s1 w1 = Inr (s1, w2) \<and> s1 = s \<and>
       written w1 = written w @ [(p, c)] \<and> written w2 = written w1 @ [(p, c)]"
  by (auto simp: save_metrics_def Let_def split: option.splits if_splits)

theorem save_metrics_twice_witness:
  "save_metrics dump_keys sink0 world0 = Inr (sink0, world_saved) \<and>
   (\<exists>w2. save_metrics dump_keys sink0 world_saved = Inr (sink0, w2) \<and>
      written w2 = written world_saved @ written world_saved)"
  using save_metrics_twice [OF save_sink0] save_sink0
  by (auto simp: world_saved_def world0_def)

text \<open>
  Claim C10: \<open>add_metrics\<close> ignores every key other than TTFT and TPOT, skips an entry
  that is absent or \<^verbatim>\<open>None\<close>, appends the value of a present TTFT (TPOT) entry to the
  TTFT (TPOT) samples after those already recorded, and changes no other field.
\<close>

theorem add_metrics_frame:
  "(k \<noteq> ''TTFT'' \<and> k \<noteq> ''TPOT'' \<longrightarrow> add_metrics s (m(k := v)) = add_metrics s m) \<and>
   (m ''TTFT'' = None \<or> m ''TTFT'' = Some None \<longrightarrow> TTFTs (add_metrics s m) = TTFTs s) \<and>
   (m ''TPOT'' = None \<or> m ''TPOT'' = Some None \<longrightarrow> TPOTs (add_metrics s m) = TPOTs s) \<and>
   (m ''TTFT'' = Some (Some x) \<longrightarrow> TTFTs (add_metrics s m) = TTFTs s @ [x]) \<and>
   (m ''TPOT'' = Some (Some y) \<longrightarrow> TPOTs (add_metrics s m) = TPOTs s @ [y]) \<and>
   metric_dir (add_metrics s m) = metric_dir s \<and>
   metric_name (add_metrics s m) = metric_name s \<and>
   logger (add_metrics s m) = logger s \<and>
   args (add_metrics s m) = args s"
  by (auto simp: add_metrics_unfold add_metric_def split: option.splits)

theorem add_metrics_frame_witness:
  "add_metrics sink0 ([''TTFT'' \<mapsto> Some 1, ''TPOT'' \<mapsto> None](''Average_TTFT'' := Some (Some 9)))
     = add_metrics sink0 [''TTFT'' \<mapsto> Some 1, ''TPOT'' \<mapsto> None] \<and>
   TTFTs (add_metrics sink0 [''TTFT'' \<mapsto> Some 1, ''TPOT'' \<mapsto> None]) = TTFTs sink0 @ [1] \<and>
   TPOTs (add_metrics sink0 [''TTFT'' \<mapsto> Some 1, ''TPOT'' \<mapsto> None]) = TPOTs sink0"
  using add_metrics_frame [of "''Average_TTFT''" sink0 "[''TTFT'' \<mapsto> Some 1, ''TPOT'' \<mapsto> None]"
      "Some (Some 9)" 1 0]
  by simp

section \<open>Simulated token lists\<close>

lemma randints_ok:
  "a \<le> b \<Longrightarrow> randints a b rs = Inr (map (\<lambda>r. a + r mod (b - a + 1)) rs)"
  by (induction rs) (simp_all add: randint_def)

text \<open>
  Claim C9: \<open>simulate_token_lists\<close> of the remote variant returns the empty list when the
  token length or the vocabulary size is not positive, and otherwise a list of exactly
  \<open>token_length\<close> ids, each between 0 and \<open>vocab_size - 1\<close>.
\<close>

theorem simulate_token_lists_range:
  "(token_length \<le> 0 \<or> vocab_size \<le> 0 \<longrightarrow>
      simulate_token_lists rng pos token_length vocab_size = Inr ([], pos)) \<and>
   (0 < token_length \<and> 0 < vocab_size \<longrightarrow>
      (\<exists>xs. simulate_token_lists rng pos token_length vocab_size = Inr (xs, pos + nat token_length)
          \<and> int (length xs) = token_length
          \<and> (\<forall>x \<in> set xs. 0 \<le> x \<and> x \<le> vocab_size - 1)))"
proof (intro conjI impI)
  assume "token_length \<le> 0 \<or> vocab_size \<le> 0"
  then show "simulate_token_lists rng pos token_length vocab_size = Inr ([], pos)"
    by (simp add: simulate_token_lists_def)
next
  assume h: "0 < token_length \<and> 0 < vocab_size"
  let ?rs = "map rng [pos ..< pos + nat token_length]"
  let ?xs = "map (\<lambda>r. 0 + r mod (vocab_size - 1 - 0 + 1)) ?rs"
  have r: "randints 0 (vocab_size - 1) ?rs = Inr ?xs"
    using h by (intro randints_ok) simp
  have "simulate_token_lists rng pos token_length vocab_size = Inr (?xs, pos + nat token_length)"
    using h by (simp add: simulate_token_lists_def r del: upt_Suc)
  moreover have "int (length ?xs) = token_length"
    using h by simp
  moreover have "\<forall>x \<in> set ?xs. 0 \<le> x \<and> x \<le> vocab_size - 1"
    using h by auto
  ultimately show "\<exists>xs. simulate_token_lists rng pos token_length vocab_size
            = Inr (xs, pos + nat token_length)
          \<and> int (length xs) = token_length
          \<and> (\<forall>x \<in> set xs. 0 \<le> x \<and> x \<le> vocab_size - 1)"
    by blast
qed

theorem simulate_token_lists_range_witness:
  "simulate_token_lists rng0 0 0 4 = Inr ([], 0) \<and>
   simulate_token_lists rng0 0 3 4 = Inr ([1, 0, 3], 3) \<and>
   (\<exists>xs. simulate_token_lists rng0 0 3 4 = Inr (xs, 3) \<and> int (length xs) = 3 \<and>
      (\<forall>x \<in> set xs. 0 \<le> x \<and> x \<le> 3))"
  using simulate_token_lists_range [of 0 4 rng0 0] simulate_token_lists_range [of 3 4 rng0 0]
  by (simp add: simulate_token_lists_def rng0_def randint_def upt_rec)

section \<open>Evaluating the replay engines on samples\<close>

lemmas local_defs = run_real_time_def local_init_def simulate_real_time_request_def
  simulate_real_time_response_def two_traces_def llm_ok_def llm_fail_first_def IS_END_def

lemmas online_defs = online_exec_def online_init_def caller_step_def run_iter_def close_put_def
  close_join_def request_worker_def response_def chunk_step_def add_metrics_def add_metric_def
  DEFAULT_METRIC_NAMES_def save_metrics_def metrics_summary_def os_path_join_def dump_keys_def
  sink0_def world0_def init_metrics_def cfg_ok_def cfg_fail_first_def client_ok_def
  client_fail_first_def stream_late_def two_traces_def

section \<open>In-process variant: invariants of every interleaving\<close>

lemma response_frame:
  "idx (simulate_real_time_response llm t s) = idx s \<and>
   enqueued (simulate_real_time_response llm t s) = enqueued s \<and>
   sent (simulate_real_time_response llm t s) = sent s \<and>
   request_done (simulate_real_time_response llm t s) = request_done s"
  by (simp add: simulate_real_time_response_def Let_def
           split: resp_pc.splits list.splits sum.splits prod.splits)

lemma producer_inv_request:
  assumes "producer_inv traces start_time s"
  shows "producer_inv traces start_time (simulate_real_time_request traces start_time t s)"
  using assms
  unfolding producer_inv_def simulate_real_time_request_def
  by (auto simp: take_Suc_conv_app_nth nth_append less_Suc_eq)

lemma producer_inv_response:
  "producer_inv traces start_time s \<Longrightarrow>
   producer_inv traces start_time (simulate_real_time_response llm t s)"
  by (simp add: producer_inv_def response_frame)

lemma handoff_inv_request:
  assumes "handoff_inv s" "producer_inv traces start_time s"
  shows "handoff_inv (simulate_real_time_request traces start_time t s)"
  using assms
  unfolding handoff_inv_def producer_inv_def simulate_real_time_request_def
  by (auto split: if_splits)

lemma handoff_inv_response:
  assumes "handoff_inv s" "producer_inv traces start_time s"
  shows "handoff_inv (simulate_real_time_response llm t s)"
  using assms
  unfolding handoff_inv_def producer_inv_def simulate_real_time_response_def
  by (auto simp: Let_def split: resp_pc.splits list.splits sum.splits if_splits)

lemma local_inv_step:
  "producer_inv traces start_time s \<and> handoff_inv s \<Longrightarrow>
   producer_inv traces start_time (local_step traces start_time llm e s) \<and>
   handoff_inv (local_step traces start_time llm e s)"
  by (cases e)
     (simp_all add: producer_inv_request producer_inv_response
        handoff_inv_request [where traces = traces and start_time = start_time]
        handoff_inv_response [where traces = traces and start_time = start_time])

lemma local_inv_fold:
  "producer_inv traces start_time s \<and> handoff_inv s \<Longrightarrow>
   producer_inv traces start_time (fold (local_step traces start_time llm) es s) \<and>
   handoff_inv (fold (local_step traces start_time llm) es s)"
proof (induction es arbitrary: s)
  case Nil
  then show ?case by simp
next
  case (Cons e es)
  from Cons.prems have "producer_inv traces start_time (local_step traces start_time llm e s) \<and>
   handoff_inv (local_step traces start_time llm e s)"
    by (rule local_inv_step)
  then show ?case using Cons.IH by simp
qed

lemma local_inv_run:
  "producer_inv traces start_time (run_real_time traces start_time llm es) \<and>
   handoff_inv (run_real_time traces start_time llm es)"
  unfolding run_real_time_def
  by (rule local_inv_fold) (simp add: producer_inv_def handoff_inv_def local_init_def)

lemma samples_inv_step: "samples_inv s \<Longrightarrow> samples_inv (local_step traces start_time llm ev s)"
  by (cases ev)
     (auto simp: samples_inv_def simulate_real_time_request_def simulate_real_time_response_def Let_def
           split: resp_pc.splits list.splits sum.splits)

lemma samples_inv_run: "samples_inv (run_real_time traces start_time llm es)"
proof -
  have "samples_inv s \<Longrightarrow> samples_inv (fold (local_step traces start_time llm) es s)" for s
    by (induction es arbitrary: s) (simp_all add: samples_inv_step)
  then show ?thesis
    by (simp add: run_real_time_def samples_inv_def local_init_def)
qed

lemma raised_step:
  assumes "pc s = Raised e"
  shows "pc (local_step traces start_time llm ev s) = Raised e \<and>
         resp_TTFTs (local_step traces start_time llm ev s) = resp_TTFTs s \<and>
         resp_TPOTs (local_step traces start_time llm ev s) = resp_TPOTs s \<and>
         generate_calls (local_step traces start_time llm ev s) = generate_calls s \<and>
         (\<exists>more. real_time_requests (local_step traces start_time llm ev s) = real_time_requests s @ more)"
  using assms
  by (cases ev) (simp_all add: simulate_real_time_request_def simulate_real_time_response_def)

lemma raised_stays:
  "pc s = Raised e \<Longrightarrow>
     pc (fold (local_step traces start_time llm) es s) = Raised e \<and>
     resp_TTFTs (fold (local_step traces start_time llm) es s) = resp_TTFTs s \<and>
     resp_TPOTs (fold (local_step traces start_time llm) es s) = resp_TPOTs s \<and>
     generate_calls (fold (local_step traces start_time llm) es s) = generate_calls s \<and>
     (\<exists>more. real_time_requests (fold (local_step traces start_time llm) es s) = real_time_requests s @ more)"
proof (induction es arbitrary: s)
  case Nil
  then show ?case by simp
next
  case (Cons ev es)
  let ?s1 = "local_step traces start_time llm ev s"
  from raised_step [OF Cons.prems, of traces start_time llm ev]
  obtain m1 where s1: "pc ?s1 = Raised e" "resp_TTFTs ?s1 = resp_TTFTs s"
    "resp_TPOTs ?s1 = resp_TPOTs s" "generate_calls ?s1 = generate_calls s"
    "real_time_requests ?s1 = real_time_requests s @ m1"
    by blast
  from Cons.IH [OF s1(1)] s1 show ?case by auto
qed

section \<open>Remote variant: invariants of every interleaving\<close>

lemma queue_inv_init: "queue_inv (online_init calls sink w)"
  by (simp add: queue_inv_def online_init_def)

lemma queue_inv_close_put: "queue_inv s \<Longrightarrow> caller s = Idle \<Longrightarrow> queue_inv (close_put s)"
  by (auto simp: queue_inv_def close_put_def split: option.splits)

lemma queue_inv_close_join: "queue_inv s \<Longrightarrow> queue_inv (close_join cfg s)"
  by (auto simp: queue_inv_def close_join_def split: sum.splits prod.splits)

lemma queue_inv_run_iter:
  "queue_inv s \<Longrightarrow> caller s = InRun traces k i \<Longrightarrow> queue_inv (run_iter traces k i now s)"
  by (auto simp: queue_inv_def run_iter_def)

lemma queue_inv_caller: "queue_inv s \<Longrightarrow> queue_inv (caller_step cfg now s)"
  unfolding caller_step_def
  by (auto simp: queue_inv_close_put queue_inv_close_join queue_inv_run_iter
           split: caller_pc.splits list.splits call.splits)
     (auto simp: queue_inv_def)

lemma queue_inv_worker: "queue_inv s \<Longrightarrow> queue_inv (request_worker cfg s)"
  unfolding queue_inv_def request_worker_def
  by (auto simp: Let_def Cons_eq_append_conv split: list.splits item.splits sum.splits)

lemma queue_inv_step: "queue_inv s \<Longrightarrow> queue_inv (online_step cfg e s)"
  by (cases e) (simp_all add: queue_inv_caller queue_inv_worker)

lemma queue_inv_exec: "queue_inv s \<Longrightarrow> queue_inv (online_exec cfg es s)"
  unfolding online_exec_def
  by (induction es arbitrary: s) (simp_all add: queue_inv_step)

lemma worker_exit:
  assumes "queue_inv s" "request_thread s = Some Running"
    "request_thread (request_worker cfg s) = Some Exited"
  shows "request_queue (request_worker cfg s) = [] \<and>
         got_log (request_worker cfg s) = put_log (request_worker cfg s) \<and>
         last (got_log (request_worker cfg s)) = OnlineServerEndSignal \<and>
         client_calls (request_worker cfg s) =
           length (filter (\<lambda>it. it \<noteq> OnlineServerEndSignal) (put_log (request_worker cfg s)))"
  using assms
  unfolding queue_inv_def request_worker_def
  by (auto simp: Let_def Cons_eq_append_conv split: list.splits item.splits sum.splits if_splits)

lemma fold_chunk_step:
  "fold (chunk_step rt) cs (T, full, c) = (T', full', c') \<Longrightarrow>
     c' = c + length (filter (\<lambda>ch. snd ch \<noteq> None \<and> snd ch \<noteq> Some []) cs) \<and>
     (cs \<noteq> [] \<or> T \<noteq> None \<longrightarrow> T' \<noteq> None)"
proof (induction cs arbitrary: T full c)
  case Nil
  then show ?case by simp
next
  case (Cons ch cs)
  obtain T1 full1 c1 where st: "chunk_step rt ch (T, full, c) = (T1, full1, c1)"
    by (cases "chunk_step rt ch (T, full, c)") auto
  then have c1: "c1 = c + (if snd ch \<noteq> None \<and> snd ch \<noteq> Some [] then 1 else 0)" and T1: "T1 \<noteq> None"
    by (auto simp: chunk_step_def Let_def split: prod.splits option.splits if_splits)
  from Cons.prems st have "fold (chunk_step rt) cs (T1, full1, c1) = (T', full', c')"
    by simp
  from Cons.IH [OF this] c1 T1 show ?case by auto
qed

lemma response_streaming:
  assumes "streaming cfg" "client cfg n text = Inr st" "chunks st \<noteq> []"
  shows "\<exists>t. response cfg n sink text rt =
           Inr (sink\<lparr>TTFTs := TTFTs sink @ [t],
                     TPOTs := TPOTs sink @
                       [if 0 < length (filter (\<lambda>ch. snd ch \<noteq> None \<and> snd ch \<noteq> Some []) (chunks st))
                        then (ed_time st - rt) /
                             real (length (filter (\<lambda>ch. snd ch \<noteq> None \<and> snd ch \<noteq> Some []) (chunks st)))
                        else 0]\<rparr>)"
proof -
  obtain T full c where f: "fold (chunk_step rt) (chunks st) (None, [], 0) = (T, full, c)"
    by (cases "fold (chunk_step rt) (chunks st) (None, [], 0)") auto
  from fold_chunk_step [OF f] assms(3)
  have c: "c = length (filter (\<lambda>ch. snd ch \<noteq> None \<and> snd ch \<noteq> Some []) (chunks st))" and "T \<noteq> None"
    by auto
  then obtain t where T: "T = Some t" by auto
  show ?thesis
    using assms(1,2) f c T
    by (auto simp add: response_def add_metrics_both)
qed

lemma response_streaming_lengths:
  assumes "streaming cfg" "response cfg n sink text rt = Inr sink'"
  shows "length (TTFTs sink') = length (TTFTs sink) + 1 \<and> length (TPOTs sink') = length (TPOTs sink) + 1"
  using assms
  by (auto simp: response_def add_metrics_both Let_def split: sum.splits prod.splits option.splits)

lemma sink_inv_worker:
  assumes "streaming cfg" "sink_inv sink s"
  shows "sink_inv sink (request_worker cfg s)"
proof (cases "request_thread s = Some Running")
  case False
  then show ?thesis using assms(2) by (simp add: request_worker_def)
next
  case True
  show ?thesis
  proof (cases "request_queue s")
    case Nil
    then show ?thesis using assms(2) by (simp add: request_worker_def)
  next
    case (Cons it rest)
    show ?thesis
    proof (cases it)
      case OnlineServerEndSignal
      then show ?thesis using assms(2) True Cons
        by (simp add: request_worker_def sink_inv_def)
    next
      case (Request prompt rt)
      show ?thesis
      proof (cases "response cfg (client_calls s) (metrics s) prompt rt")
        case (Inl e)
        then show ?thesis using assms(2) True Cons Request
          by (simp add: request_worker_def sink_inv_def)
      next
        case (Inr sink')
        from response_streaming_lengths [OF assms(1) Inr] show ?thesis
          using assms(2) True Cons Request Inr
          by (simp add: request_worker_def sink_inv_def)
      qed
    qed
  qed
qed

lemma sink_inv_caller: "sink_inv sink s \<Longrightarrow> sink_inv sink (caller_step cfg now s)"
  unfolding caller_step_def
  by (auto simp: sink_inv_def close_put_def close_join_def run_iter_def save_metrics_def Let_def
           split: caller_pc.splits list.splits call.splits option.splits sum.splits)

lemma sink_inv_exec:
  "streaming cfg \<Longrightarrow> sink_inv sink s \<Longrightarrow> sink_inv sink (online_exec cfg es s)"
  unfolding online_exec_def
proof (induction es arbitrary: s)
  case Nil
  then show ?case by simp
next
  case (Cons ev es)
  have "sink_inv sink (online_step cfg ev s)"
    using Cons.prems by (cases ev) (simp_all add: sink_inv_worker sink_inv_caller)
  with Cons show ?case by simp
qed

lemma sink_inv_init: "sink_inv sink (online_init calls sink w)"
  by (simp add: sink_inv_def online_init_def)

lemma died_step:
  assumes "request_thread s = Some (Died e)"
  shows "request_thread (online_step cfg ev s) = Some (Died e) \<and>
         TTFTs (metrics (online_step cfg ev s)) = TTFTs (metrics s) \<and>
         TPOTs (metrics (online_step cfg ev s)) = TPOTs (metrics s) \<and>
         client_calls (online_step cfg ev s) = client_calls s \<and>
         (\<exists>more. request_queue (online_step cfg ev s) = request_queue s @ more)"
proof (cases ev)
  case (Caller now)
  show ?thesis
    using assms unfolding Caller online_step.simps caller_step_def
    by (auto simp: close_put_def close_join_def run_iter_def save_metrics_def Let_def
             split: caller_pc.splits list.splits call.splits option.splits sum.splits)
next
  case Worker
  then show ?thesis using assms by (simp add: request_worker_def)
qed

lemma died_stays:
  "request_thread s = Some (Died e) \<Longrightarrow>
     request_thread (online_exec cfg es s) = Some (Died e) \<and>
     TTFTs (metrics (online_exec cfg es s)) = TTFTs (metrics s) \<and>
     TPOTs (metrics (online_exec cfg es s)) = TPOTs (metrics s) \<and>
     client_calls (online_exec cfg es s) = client_calls s \<and>
     (\<exists>more. request_queue (online_exec cfg es s) = request_queue s @ more)"
  unfolding online_exec_def
proof (induction es arbitrary: s)
  case Nil
  then show ?case by simp
next
  case (Cons ev es)
  let ?s1 = "online_step cfg ev s"
  from died_step [OF Cons.prems, of cfg ev]
  obtain m1 where s1: "request_thread ?s1 = Some (Died e)" "TTFTs (metrics ?s1) = TTFTs (metrics s)"
    "TPOTs (metrics ?s1) = TPOTs (metrics s)" "client_calls ?s1 = client_calls s"
    "request_queue ?s1 = request_queue s @ m1"
    by blast
  from Cons.IH [OF s1(1)] s1 show ?case by auto
qed

lemma single_run_inv_worker:
  "single_run_inv traces k s \<Longrightarrow> single_run_inv traces k (request_worker cfg s)"
proof -
  have "put_log (request_worker cfg s) = put_log s \<and> caller (request_worker cfg s) = caller s \<and>
        program (request_worker cfg s) = program s \<and>
        run_start_time (request_worker cfg s) = run_start_time s"
    by (simp add: request_worker_def Let_def split: list.splits item.splits sum.splits)
  then show "single_run_inv traces k s \<Longrightarrow> single_run_inv traces k (request_worker cfg s)"
    by (simp add: single_run_inv_def)
qed

lemma single_run_inv_caller:
  assumes "single_run_inv traces k s"
  shows "single_run_inv traces k (caller_step cfg now s)"
proof -
  from assms obtain ts where ts: "length ts \<le> length traces"
    "put_log s = map2 (\<lambda>tr t. Request (input_text tr) t) (take (length ts) traces) ts"
    "\<forall>i < length ts. run_start_time s + of_int (timestamp (traces ! i)) / of_int k \<le> ts ! i"
    and ph: "caller s = Idle \<and> program s = [Run traces k] \<and> ts = [] \<or>
         caller s = InRun traces k (length ts) \<and> program s = [Run traces k] \<or>
         caller s = Idle \<and> program s = [] \<or>
         (\<exists>e. caller s = Failed e)"
    unfolding single_run_inv_def by blast
  from ph consider
      (start) "caller s = Idle" "program s = [Run traces k]" "ts = []"
    | (loop) "caller s = InRun traces k (length ts)" "program s = [Run traces k]"
    | (finished) "caller s = Idle" "program s = []"
    | (failed) e where "caller s = Failed e"
    by blast
  then show ?thesis
  proof cases
    case start
    then show ?thesis using ts
      by (auto simp: single_run_inv_def caller_step_def intro!: exI [of _ "[]"])
  next
    case finished
    then show ?thesis using assms by (simp add: caller_step_def)
  next
    case failed
    then show ?thesis using assms by (simp add: caller_step_def)
  next
    case loop
    let ?n = "length ts"
    have step: "caller_step cfg now s = run_iter traces k ?n now s"
      using loop by (simp add: caller_step_def)
    show ?thesis
    proof (cases "?n < length traces")
      case False
      then show ?thesis unfolding step using ts loop
        by (auto simp: single_run_inv_def run_iter_def intro!: exI [of _ ts])
    next
      case True
      show ?thesis
      proof (cases "k = 0")
        case k0: True
        then show ?thesis unfolding step using ts loop True
          by (auto simp: single_run_inv_def run_iter_def intro!: exI [of _ ts])
      next
        case k1: False
        show ?thesis
        proof (cases "now - run_start_time s \<ge> of_int (timestamp (traces ! ?n)) / of_int k")
          case False
          then show ?thesis unfolding step using ts loop True k1
            by (auto simp: single_run_inv_def run_iter_def intro!: exI [of _ ts])
        next
          case due: True
          let ?ts = "ts @ [now]"
          have tk: "take (length ?ts) traces = take ?n traces @ [traces ! ?n]"
            using True by (simp add: take_Suc_conv_app_nth)
          have z: "map2 (\<lambda>tr t. Request (input_text tr) t) (take (length ?ts) traces) ?ts
                   = put_log s @ [Request (input_text (traces ! ?n)) now]"
            unfolding tk using ts(1,2) by simp
          have b: "\<forall>i < length ?ts. run_start_time s + of_int (timestamp (traces ! i)) / of_int k \<le> ?ts ! i"
            using ts(3) due by (auto simp: nth_append less_Suc_eq)
          have l: "length ?ts \<le> length traces" using True by simp
          show ?thesis
            unfolding step single_run_inv_def
            using True k1 due loop z b l
            by (intro exI [of _ ?ts]) (simp add: run_iter_def)
        qed
      qed
    qed
  qed
qed

lemma single_run_inv_exec:
  "single_run_inv traces k s \<Longrightarrow> single_run_inv traces k (online_exec cfg es s)"
  unfolding online_exec_def
proof (induction es arbitrary: s)
  case Nil
  then show ?case by simp
next
  case (Cons ev es)
  have "single_run_inv traces k (online_step cfg ev s)"
    using Cons.prems by (cases ev) (simp_all add: single_run_inv_worker single_run_inv_caller)
  with Cons show ?case by simp
qed

lemma single_run_inv_init: "single_run_inv traces k (online_init [Run traces k] sink w)"
  by (simp add: single_run_inv_def online_init_def)

section \<open>Time per output token\<close>

text \<open>
  Claim C1, as the code has it.  In the in-process variant the TPOT appended for a
  request is the time after \<^verbatim>\<open>generate\<close> minus the backend's arrival time, divided by
  the number of generated tokens, and 0.0 when there are none.  In the remote variant,
  when at least one chunk arrives, the TPOT appended is the time after the last chunk
  minus \<open>receive_time\<close>, the time at which the scheduler enqueued the request, divided by
  the number of chunks with non-empty content, and 0.0 when there are none.
\<close>

theorem tpot_recorded:
  "(pc s = AtTop \<and> real_time_requests s = (receive_time, text) # rest \<and>
      llm (generate_calls s) text = Inr out \<longrightarrow>
      resp_TPOTs (simulate_real_time_response llm ed s) =
        resp_TPOTs s @ [if token_ids out \<noteq> []
                        then (ed - arrival_time out) / real (length (token_ids out)) else 0]) \<and>
   (streaming cfg \<and> client cfg n text' = Inr st \<and> chunks st \<noteq> [] \<longrightarrow>
      (\<exists>sink'. response cfg n sink text' rt = Inr sink' \<and>
         TPOTs sink' = TPOTs sink @
           [if 0 < length (filter (\<lambda>ch. snd ch \<noteq> None \<and> snd ch \<noteq> Some []) (chunks st))
            then (ed_time st - rt) /
                 real (length (filter (\<lambda>ch. snd ch \<noteq> None \<and> snd ch \<noteq> Some []) (chunks st)))
            else 0]))"
proof (intro conjI impI)
  assume "pc s = AtTop \<and> real_time_requests s = (receive_time, text) # rest \<and>
      llm (generate_calls s) text = Inr out"
  then show "resp_TPOTs (simulate_real_time_response llm ed s) =
        resp_TPOTs s @ [if token_ids out \<noteq> []
                        then (ed - arrival_time out) / real (length (token_ids out)) else 0]"
    by (simp add: simulate_real_time_response_def Let_def)
next
  assume h: "streaming cfg \<and> client cfg n text' = Inr st \<and> chunks st \<noteq> []"
  then obtain t where "response cfg n sink text' rt =
           Inr (sink\<lparr>TTFTs := TTFTs sink @ [t],
                     TPOTs := TPOTs sink @
                       [if 0 < length (filter (\<lambda>ch. snd ch \<noteq> None \<and> snd ch \<noteq> Some []) (chunks st))
                        then (ed_time st - rt) /
                             real (length (filter (\<lambda>ch. snd ch \<noteq> None \<and> snd ch \<noteq> Some []) (chunks st)))
                        else 0]\<rparr>)"
    using response_streaming [of cfg n text' st sink rt] by blast
  then show "\<exists>sink'. response cfg n sink text' rt = Inr sink' \<and>
         TPOTs sink' = TPOTs sink @
           [if 0 < length (filter (\<lambda>ch. snd ch \<noteq> None \<and> snd ch \<noteq> Some []) (chunks st))
            then (ed_time st - rt) /
                 real (length (filter (\<lambda>ch. snd ch \<noteq> None \<and> snd ch \<noteq> Some []) (chunks st)))
            else 0]"
    by simp
qed

theorem tpot_recorded_witness:
  "resp_TPOTs (simulate_real_time_response llm_ok 5 one_queued) = [3 / 2] \<and>
   (\<exists>sink'. response cfg_ok 0 sink0 ''a'' 0 = Inr sink' \<and> TPOTs sink' = [6])"
  using tpot_recorded [of one_queued 1 "''a''" "[]" llm_ok
      "\<lparr>first_token_time = 3, arrival_time = 2, token_ids = [7, 8]\<rparr>" 5 cfg_ok 0 "''a''" stream_late sink0 0]
  by (simp add: one_queued_def local_init_def llm_ok_def cfg_ok_def client_ok_def stream_late_def
        sink0_def init_metrics_def)

text \<open>
  Claim C1 as stated fails for the remote variant: a request enqueued at 0 that reaches
  the endpoint at 10 and completes at 12 with two content chunks is given the TPOT
  (12 - 0) / 2 = 6, not (12 - 10) / 2.
\<close>

theorem remote_tpot_counterexample:
  "map_sum id TPOTs (response cfg_ok 0 sink0 ''a'' 0) = Inr [6] \<and>
   (ed_time stream_late - arrival stream_late) / 2 \<noteq> 6 \<and>
   client cfg_ok 0 ''a'' = Inr stream_late"
  by (simp add: online_defs)

section \<open>A failing backend call\<close>

lemma failure_stops_executor:
  "(pc s = AtTop \<and> real_time_requests s = (receive_time, text) # rest \<and>
      llm (generate_calls s) text = Inl e \<longrightarrow>
      (let s' = fold (local_step traces start_time llm) es (simulate_real_time_response llm t s)
       in pc s' = Raised e \<and> resp_TTFTs s' = resp_TTFTs s \<and> resp_TPOTs s' = resp_TPOTs s \<and>
          generate_calls s' = generate_calls s + 1 \<and>
          (\<exists>more. real_time_requests s' = rest @ more))) \<and>
   (request_thread os = Some Running \<and> request_queue os = Request text' rt # rest' \<and>
      response cfg (client_calls os) (metrics os) text' rt = Inl e' \<longrightarrow>
      (let os' = online_exec cfg oes (request_worker cfg os)
       in request_thread os' = Some (Died e') \<and>
          TTFTs (metrics os') = TTFTs (metrics os) \<and> TPOTs (metrics os') = TPOTs (metrics os) \<and>
          client_calls os' = client_calls os + 1 \<and>
          (\<exists>more. request_queue os' = rest' @ more)))"
proof (intro conjI impI)
  assume h: "pc s = AtTop \<and> real_time_requests s = (receive_time, text) # rest \<and>
      llm (generate_calls s) text = Inl e"
  let ?s1 = "simulate_real_time_response llm t s"
  from h have s1: "pc ?s1 = Raised e" "resp_TTFTs ?s1 = resp_TTFTs s" "resp_TPOTs ?s1 = resp_TPOTs s"
    "generate_calls ?s1 = generate_calls s + 1" "real_time_requests ?s1 = rest"
    by (simp_all add: simulate_real_time_response_def Let_def)
  from raised_stays [OF s1(1), of traces start_time llm es] s1
  show "let s' = fold (local_step traces start_time llm) es ?s1
       in pc s' = Raised e \<and> resp_TTFTs s' = resp_TTFTs s \<and> resp_TPOTs s' = resp_TPOTs s \<and>
          generate_calls s' = generate_calls s + 1 \<and>
          (\<exists>more. real_time_requests s' = rest @ more)"
    by (simp add: Let_def)
next
  assume h: "request_thread os = Some Running \<and> request_queue os = Request text' rt # rest' \<and>
      response cfg (client_calls os) (metrics os) text' rt = Inl e'"
  let ?s1 = "request_worker cfg os"
  from h have s1: "request_thread ?s1 = Some (Died e')" "metrics ?s1 = metrics os"
    "client_calls ?s1 = client_calls os + 1" "request_queue ?s1 = rest'"
    by (simp_all add: request_worker_def Let_def)
  from died_stays [OF s1(1), of cfg oes] s1
  show "let os' = online_exec cfg oes ?s1
       in request_thread os' = Some (Died e') \<and>
          TTFTs (metrics os') = TTFTs (metrics os) \<and> TPOTs (metrics os') = TPOTs (metrics os) \<and>
          client_calls os' = client_calls os + 1 \<and>
          (\<exists>more. request_queue os' = rest' @ more)"
    by (simp add: Let_def)
qed

lemma sample_counts:
  "(let s = run_real_time traces start_time llm es0 in
      length (resp_TPOTs s) = length (resp_TTFTs s) \<and>
      length (resp_TTFTs s) + (case pc s of Raised e \<Rightarrow> 1 | _ \<Rightarrow> 0) = generate_calls s) \<and>
   (streaming cfg \<longrightarrow>
     (let os = online_exec cfg oes0 (online_init calls sink w) in
      length (TTFTs (metrics os)) + (case request_thread os of Some (Died e) \<Rightarrow> 1 | _ \<Rightarrow> 0)
        = length (TTFTs sink) + client_calls os \<and>
      length (TPOTs (metrics os)) + (case request_thread os of Some (Died e) \<Rightarrow> 1 | _ \<Rightarrow> 0)
        = length (TPOTs sink) + client_calls os))"
proof (intro conjI impI)
  show "let s = run_real_time traces start_time llm es0 in
      length (resp_TPOTs s) = length (resp_TTFTs s) \<and>
      length (resp_TTFTs s) + (case pc s of Raised e \<Rightarrow> 1 | _ \<Rightarrow> 0) = generate_calls s"
    using samples_inv_run [of traces start_time llm es0] by (simp add: samples_inv_def Let_def)
next
  assume "streaming cfg"
  then have "sink_inv sink (online_exec cfg oes0 (online_init calls sink w))"
    by (intro sink_inv_exec sink_inv_init)
  then show "let os = online_exec cfg oes0 (online_init calls sink w) in
      length (TTFTs (metrics os)) + (case request_thread os of Some (Died e) \<Rightarrow> 1 | _ \<Rightarrow> 0)
        = length (TTFTs sink) + client_calls os \<and>
      length (TPOTs (metrics os)) + (case request_thread os of Some (Died e) \<Rightarrow> 1 | _ \<Rightarrow> 0)
        = length (TPOTs sink) + client_calls os"
    by (simp add: sink_inv_def Let_def)
qed

text \<open>
  Claim C2, as the code has it.  Neither variant catches an exception of the backend
  call: when the call for the request at the head of the queue raises, the executor ends
  with that exception, records no sample for the request, and under every later schedule
  takes nothing more from the queue, so the requests behind it stay there.  In every
  reachable state the number of samples of each kind is the number of backend calls that
  returned (for the remote variant, in streaming mode).
\<close>

theorem backend_failure_stops_executor:
  "(pc s = AtTop \<and> real_time_requests s = (receive_time, prompt) # rest \<and>
      llm (generate_calls s) prompt = Inl e \<longrightarrow>
      (let s' = fold (local_step traces start_time llm) es (simulate_real_time_response llm t s)
       in pc s' = Raised e \<and> resp_TTFTs s' = resp_TTFTs s \<and> resp_TPOTs s' = resp_TPOTs s \<and>
          generate_calls s' = generate_calls s + 1 \<and>
          (\<exists>more. real_time_requests s' = rest @ more))) \<and>
   (request_thread os = Some Running \<and> request_queue os = Request prompt' rt # rest' \<and>
      response cfg (client_calls os) (metrics os) prompt' rt = Inl e' \<longrightarrow>
      (let os' = online_exec cfg oes (request_worker cfg os)
       in request_thread os' = Some (Died e') \<and>
          TTFTs (metrics os') = TTFTs (metrics os) \<and> TPOTs (metrics os') = TPOTs (metrics os) \<and>
          client_calls os' = client_calls os + 1 \<and>
          (\<exists>more. request_queue os' = rest' @ more))) \<and>
   (let s = run_real_time traces start_time llm es0 in
      length (resp_TPOTs s) = length (resp_TTFTs s) \<and>
      length (resp_TTFTs s) + (case pc s of Raised e \<Rightarrow> 1 | _ \<Rightarrow> 0) = generate_calls s) \<and>
   (streaming cfg \<longrightarrow>
     (let os = online_exec cfg oes0 (online_init calls sink w) in
      length (TTFTs (metrics os)) + (case request_thread os of Some (Died e) \<Rightarrow> 1 | _ \<Rightarrow> 0)
        = length (TTFTs sink) + client_calls os \<and>
      length (TPOTs (metrics os)) + (case request_thread os of Some (Died e) \<Rightarrow> 1 | _ \<Rightarrow> 0)
        = length (TPOTs sink) + client_calls os))"
  using failure_stops_executor [of s receive_time prompt rest llm e traces start_time es t
          os prompt' rt rest' cfg e' oes]
        sample_counts [of traces start_time llm es0 cfg oes0 calls sink w]
  by blast

theorem backend_failure_stops_executor_witness:
  "(let s' = fold (local_step two_traces 0 llm_fail_first) [Producer 2, Consumer 6, Consumer 7]
               (simulate_real_time_response llm_fail_first 5 two_queued)
    in pc s' = Raised (BackendError ''timeout'') \<and> resp_TTFTs s' = [] \<and> resp_TPOTs s' = [] \<and>
       generate_calls s' = 1 \<and> (\<exists>more. real_time_requests s' = [(1, ''b'')] @ more)) \<and>
   (let os' = online_exec cfg_fail_first [Worker, Caller 3, Worker] (request_worker cfg_fail_first two_put)
    in request_thread os' = Some (Died (BackendError ''timeout'')) \<and>
       TTFTs (metrics os') = [] \<and> TPOTs (metrics os') = [] \<and> client_calls os' = 1 \<and>
       (\<exists>more. request_queue os' = [Request ''b'' 2] @ more)) \<and>
   streaming cfg_fail_first"
  using backend_failure_stops_executor [of two_queued 0 "''a''" "[(1, ''b'')]" llm_fail_first
      "BackendError ''timeout''" two_traces 0 "[Producer 2, Consumer 6, Consumer 7]" 5
      two_put "''a''" 0 "[Request ''b'' 2]" cfg_fail_first "BackendError ''timeout''"
      "[Worker, Caller 3, Worker]" "[]" "[]" "[]" sink0 world0]
  by (simp add: two_queued_def two_put_def local_init_def online_init_def llm_fail_first_def
        cfg_fail_first_def client_fail_first_def response_def sink0_def init_metrics_def)

text \<open>
  Claim C2 as stated fails: with two requests enqueued and the first backend call
  raising, the executor of either variant ends with the exception, and the second request,
  whose call would have returned, is still in the queue after every further step.
\<close>

theorem executor_crash_counterexample:
  "pc (run_real_time two_traces 0 llm_fail_first
         [Producer 0, Producer 1, Producer 2, Consumer 5, Consumer 6, Consumer 7, Consumer 8])
     = Raised (BackendError ''timeout'') \<and>
   real_time_requests (run_real_time two_traces 0 llm_fail_first
         [Producer 0, Producer 1, Producer 2, Consumer 5, Consumer 6, Consumer 7, Consumer 8])
     = [(1, ''b'')] \<and>
   generate_calls (run_real_time two_traces 0 llm_fail_first
         [Producer 0, Producer 1, Producer 2, Consumer 5, Consumer 6, Consumer 7, Consumer 8]) = 1 \<and>
   llm_fail_first 1 ''b'' = llm_ok 1 ''b'' \<and>
   request_thread (online_exec cfg_fail_first [Caller 0, Caller 0, Caller 2, Worker, Worker, Worker]
         (online_init [Run two_traces 10] sink0 world0))
     = Some (Died (BackendError ''timeout'')) \<and>
   request_queue (online_exec cfg_fail_first [Caller 0, Caller 0, Caller 2, Worker, Worker, Worker]
         (online_init [Run two_traces 10] sink0 world0))
     = [Request ''b'' 2] \<and>
   client_fail_first 1 ''b'' = client_ok 1 ''b''"
  by (simp add: local_defs online_defs Let_def)

section \<open>The arrival scheduler\<close>

text \<open>
  Claim C5, as the code has it.  Under every schedule both variants enqueue a prefix of
  the traces in their input order.  The in-process variant, whose scale is fixed at 10
  with integer division, enqueues record \<open>i\<close> no earlier than
  \<open>start_time + timestamp i div 10\<close>; the remote variant, on a server whose only call is
  \<^verbatim>\<open>run(traces, k)\<close>, enqueues record \<open>i\<close> no earlier than the start of the run plus
  \<open>timestamp i / k\<close>.
\<close>

theorem enqueue_order_and_time:
  "(let s = run_real_time traces start_time llm es in
      idx s \<le> length traces \<and>
      length (enqueued s) = idx s \<and>
      map snd (enqueued s) = map input_text (take (idx s) traces) \<and>
      (\<forall>i < length (enqueued s).
         start_time + of_int (timestamp (traces ! i) div 10) \<le> fst (enqueued s ! i))) \<and>
   (let os = online_exec cfg oes (online_init [Run traces' k] sink w) in
      \<exists>ts. length ts \<le> length traces' \<and>
        put_log os = map2 (\<lambda>tr t. Request (input_text tr) t) (take (length ts) traces') ts \<and>
        (\<forall>i < length ts.
           run_start_time os + of_int (timestamp (traces' ! i)) / of_int k \<le> ts ! i))"
proof (intro conjI)
  have "producer_inv traces start_time (run_real_time traces start_time llm es)"
    using local_inv_run by blast
  then show "let s = run_real_time traces start_time llm es in
      idx s \<le> length traces \<and>
      length (enqueued s) = idx s \<and>
      map snd (enqueued s) = map input_text (take (idx s) traces) \<and>
      (\<forall>i < length (enqueued s).
         start_time + of_int (timestamp (traces ! i) div 10) \<le> fst (enqueued s ! i))"
    by (simp add: producer_inv_def Let_def)
next
  have "single_run_inv traces' k (online_exec cfg oes (online_init [Run traces' k] sink w))"
    by (intro single_run_inv_exec single_run_inv_init)
  then show "let os = online_exec cfg oes (online_init [Run traces' k] sink w) in
      \<exists>ts. length ts \<le> length traces' \<and>
        put_log os = map2 (\<lambda>tr t. Request (input_text tr) t) (take (length ts) traces') ts \<and>
        (\<forall>i < length ts.
           run_start_time os + of_int (timestamp (traces' ! i)) / of_int k \<le> ts ! i)"
    unfolding single_run_inv_def Let_def by blast
qed

theorem enqueue_order_and_time_witness:
  "enqueued (run_real_time two_traces 0 llm_ok [Producer 0, Producer 1]) = [(0, ''a''), (1, ''b'')] \<and>
   map snd (enqueued (run_real_time two_traces 0 llm_ok [Producer 0, Producer 1]))
     = map input_text (take 2 two_traces) \<and>
   0 + real_of_int (timestamp (two_traces ! 1) div 10)
     \<le> fst (enqueued (run_real_time two_traces 0 llm_ok [Producer 0, Producer 1]) ! 1) \<and>
   put_log (online_exec cfg_ok [Caller 0, Caller 0, Caller 1, Caller 2]
              (online_init [Run two_traces 10] sink0 world0))
     = [Request ''a'' 0, Request ''b'' 2]"
  using enqueue_order_and_time [of two_traces 0 llm_ok "[Producer 0, Producer 1]"
      cfg_ok "[Caller 0, Caller 0, Caller 1, Caller 2]" two_traces 10 sink0 world0]
  by (simp add: Let_def local_defs online_defs)

text \<open>
  Claim C5 as stated fails for the in-process variant: the record with timestamp 15 is
  enqueued at 1 second after the start, before 15 / 10 = 1.5 seconds.
\<close>

theorem floor_schedule_counterexample:
  "enqueued (run_real_time two_traces 0 llm_ok [Producer 0, Producer 1]) = [(0, ''a''), (1, ''b'')] \<and>
   timestamp (two_traces ! 1) = 15 \<and>
   (1::real) < 0 + 15 / 10"
  by (simp add: local_defs)

section \<open>Termination of the executor\<close>

text \<open>
  Claim C6: under every schedule, when the in-process executor has returned, it has
  seen the end message, the queue is empty, the producer is done, and every trace has been
  enqueued, dequeued and passed to the backend; and at the step at which the worker of
  the remote variant leaves its loop, it has just taken the end signal, the queue is
  empty, and every item put so far has been taken and every request among them passed
  to the backend.
\<close>

theorem executor_exit_conditions:
  "(let s = run_real_time traces start_time llm es in
      pc s = Returned \<longrightarrow>
        is_sending_end s \<and> real_time_requests s = [] \<and> request_done s \<and>
        dequeued s = enqueued s \<and> map snd (dequeued s) = map input_text traces \<and>
        generate_calls s = length traces) \<and>
   (let os = online_exec cfg oes (online_init calls sink w); os' = request_worker cfg os in
      request_thread os = Some Running \<and> request_thread os' = Some Exited \<longrightarrow>
        last (got_log os') = OnlineServerEndSignal \<and> request_queue os' = [] \<and>
        got_log os' = put_log os' \<and>
        client_calls os' = length (filter (\<lambda>it. it \<noteq> OnlineServerEndSignal) (put_log os')))"
proof (intro conjI)
  let ?s = "run_real_time traces start_time llm es"
  have p: "producer_inv traces start_time ?s" and h: "handoff_inv ?s"
    using local_inv_run by blast+
  show "let s = ?s in
      pc s = Returned \<longrightarrow>
        is_sending_end s \<and> real_time_requests s = [] \<and> request_done s \<and>
        dequeued s = enqueued s \<and> map snd (dequeued s) = map input_text traces \<and>
        generate_calls s = length traces"
    using p h unfolding producer_inv_def handoff_inv_def Let_def
    by auto
next
  let ?os = "online_exec cfg oes (online_init calls sink w)"
  have q: "queue_inv ?os"
    by (intro queue_inv_exec queue_inv_init)
  show "let os = ?os; os' = request_worker cfg os in
      request_thread os = Some Running \<and> request_thread os' = Some Exited \<longrightarrow>
        last (got_log os') = OnlineServerEndSignal \<and> request_queue os' = [] \<and>
        got_log os' = put_log os' \<and>
        client_calls os' = length (filter (\<lambda>it. it \<noteq> OnlineServerEndSignal) (put_log os'))"
    using worker_exit [OF q, of cfg] unfolding Let_def by blast
qed

theorem executor_exit_conditions_witness:
  "pc (run_real_time two_traces 0 llm_ok
        [Producer 0, Producer 1, Consumer 5, Producer 2, Consumer 6, Consumer 7, Consumer 7, Consumer 7])
     = Returned \<and>
   dequeued (run_real_time two_traces 0 llm_ok
        [Producer 0, Producer 1, Consumer 5, Producer 2, Consumer 6, Consumer 7, Consumer 7, Consumer 7])
     = [(0, ''a''), (1, ''b'')] \<and>
   generate_calls (run_real_time two_traces 0 llm_ok
        [Producer 0, Producer 1, Consumer 5, Producer 2, Consumer 6, Consumer 7, Consumer 7, Consumer 7])
     = length two_traces \<and>
   request_thread (online_exec cfg_ok [Caller 0, Caller 0, Caller 1, Worker, Caller 2, Caller 2, Caller 2, Worker]
        (online_init [Run two_traces 10, Close, Del] sink0 world0)) = Some Running \<and>
   request_thread (request_worker cfg_ok
      (online_exec cfg_ok [Caller 0, Caller 0, Caller 1, Worker, Caller 2, Caller 2, Caller 2, Worker]
        (online_init [Run two_traces 10, Close, Del] sink0 world0))) = Some Exited \<and>
   request_queue (request_worker cfg_ok
      (online_exec cfg_ok [Caller 0, Caller 0, Caller 1, Worker, Caller 2, Caller 2, Caller 2, Worker]
        (online_init [Run two_traces 10, Close, Del] sink0 world0))) = [] \<and>
   client_calls (request_worker cfg_ok
      (online_exec cfg_ok [Caller 0, Caller 0, Caller 1, Worker, Caller 2, Caller 2, Caller 2, Worker]
        (online_init [Run two_traces 10, Close, Del] sink0 world0))) = 2"
  using executor_exit_conditions [of two_traces 0 llm_ok
      "[Producer 0, Producer 1, Consumer 5, Producer 2, Consumer 6, Consumer 7, Consumer 7, Consumer 7]"
      cfg_ok "[Caller 0, Caller 0, Caller 1, Worker, Caller 2, Caller 2, Caller 2, Worker]"
      "[Run two_traces 10, Close, Del]" sink0 world0]
  by (simp add: Let_def local_defs online_defs)

section \<open>The end signal of the remote variant\<close>

text \<open>
  Claim C4 fails in the remote variant for the calls of \<^verbatim>\<open>main.py\<close>: \<^verbatim>\<open>run\<close>,
  \<^verbatim>\<open>close\<close>, then the destructor.  \<^verbatim>\<open>close\<close> never resets \<^verbatim>\<open>request_thread\<close>, so
  the destructor puts a second end signal, which stays in the queue, and saves the
  metrics a second time.
\<close>

theorem close_then_del_sends_two_signals:
  "put_log (online_exec cfg_ok
      [Caller 0, Caller 0, Caller 1, Worker, Caller 2, Caller 2, Caller 2, Worker, Worker,
       Caller 3, Caller 4, Caller 5, Worker]
      (online_init [Run two_traces 10, Close, Del] sink0 world0))
     = [Request ''a'' 0, Request ''b'' 2, OnlineServerEndSignal, OnlineServerEndSignal] \<and>
   request_queue (online_exec cfg_ok
      [Caller 0, Caller 0, Caller 1, Worker, Caller 2, Caller 2, Caller 2, Worker, Worker,
       Caller 3, Caller 4, Caller 5, Worker]
      (online_init [Run two_traces 10, Close, Del] sink0 world0)) = [OnlineServerEndSignal] \<and>
   length (written (outside (online_exec cfg_ok
      [Caller 0, Caller 0, Caller 1, Worker, Caller 2, Caller 2, Caller 2, Worker, Worker,
       Caller 3, Caller 4, Caller 5, Worker]
      (online_init [Run two_traces 10, Close, Del] sink0 world0)))) = 2 \<and>
   program (online_exec cfg_ok
      [Caller 0, Caller 0, Caller 1, Worker, Caller 2, Caller 2, Caller 2, Worker, Worker,
       Caller 3, Caller 4, Caller 5, Worker]
      (online_init [Run two_traces 10, Close, Del] sink0 world0)) = []"
  by (simp add: Let_def online_defs)

end
